theory Spec2Isabelle
  imports Main
begin

section \<open>Python values, exceptions and log records\<close>

text \<open>
  The dispatcher of \<^verbatim>\<open>a2a_protocol/server.py\<close> moves Python objects around without
  looking into them: request parameters, handler results and the \<^verbatim>\<open>data\<close> member of
  an error. They are modelled by one datatype of values. \<open>PObject ty\<close> is an object of
  class \<open>ty\<close> that \<^verbatim>\<open>json.dumps\<close> cannot encode (a set, a datetime, ...); a handler is
  typed \<^verbatim>\<open>Callable\<close> and may return one. Floats are left out: the dispatcher never
  computes with a number.
\<close>

datatype pyval =
    PNone
  | PBool bool
  | PInt int
  | PStr string
  | PList "pyval list"
  | PDict "(string \<times> pyval) list"
  | PObject string

text \<open>
  Every \<^verbatim>\<open>except\<close> clause of the module catches \<^verbatim>\<open>Exception\<close> and uses the exception
  only through \<^verbatim>\<open>str(e)\<close>, so an exception is modelled by that string. Signals that
  derive from \<^verbatim>\<open>BaseException\<close> only (task cancellation, interpreter exit) are outside
  the model.
\<close>

datatype exn = Exception string

fun str :: "exn \<Rightarrow> string" where
  "str (Exception s) = s"

text \<open>The calls of \<^verbatim>\<open>logger.debug/info/warning/error\<close>, in program order.\<close>

datatype log_entry =
    LogDebug string
  | LogInfo string
  | LogWarning string
  | LogError string

subsection \<open>\<^verbatim>\<open>json.dumps\<close>\<close>

text \<open>
  \<^verbatim>\<open>json.dumps\<close> walks the value depth first and raises \<^verbatim>\<open>TypeError\<close> at the first
  object it cannot encode. \<open>first_opaque\<close> finds the class name of that object. The
  concrete JSON text of an encodable value is not modelled: it is the parameter \<open>enc\<close>.
\<close>

fun first_some :: "'a option list \<Rightarrow> 'a option" where
  "first_some [] = None"
| "first_some (None # xs) = first_some xs"
| "first_some (Some x # xs) = Some x"

fun first_opaque :: "pyval \<Rightarrow> string option" where
  "first_opaque PNone = None"
| "first_opaque (PBool b) = None"
| "first_opaque (PInt i) = None"
| "first_opaque (PStr s) = None"
| "first_opaque (PList xs) = first_some (map first_opaque xs)"
| "first_opaque (PDict kvs) = first_some (map (\<lambda>(k, v). first_opaque v) kvs)"
| "first_opaque (PObject ty) = Some ty"

definition json_dumps :: "(pyval \<Rightarrow> string) \<Rightarrow> pyval \<Rightarrow> exn + string" where
  "json_dumps enc data =
     (case first_opaque data of
        None \<Rightarrow> Inr (enc data)
      | Some ty \<Rightarrow> Inl (Exception (''Object of type '' @ ty @ '' is not JSON serializable'')))"

section \<open>Message schemas\<close>

text \<open>
  Modelled from the spec: the classes of \<^verbatim>\<open>a2a_protocol/schemas.py\<close> and the two
  response builders of \<^verbatim>\<open>MessageValidator\<close> (\<^verbatim>\<open>a2a_protocol/validation.py\<close>), neither
  of which is among the source files. The spec gives the envelope as one of Request
  \<open>{method, params, id}\<close>, Notification \<open>{method, params}\<close> and Error, a response as a
  success object \<open>{result, id}\<close> or an error object \<open>{code, message, data, id}\<close>, the
  builders as \<open>buildErrorObject(code, message, data, id)\<close> and
  \<open>buildSuccessObject(result, id)\<close>, and the wire format as
  \<open>{jsonrpc: "2.0", result, id}\<close> or \<open>{jsonrpc: "2.0", error: {code, message, data}, id}\<close>.
  A JSON-RPC id is a string, a number or null.
\<close>

datatype rpc_id = IdNull | IdInt int | IdStr string

record JSONRPCRequest =
  req_method :: string
  req_params :: pyval
  req_id :: rpc_id

record JSONRPCNotification =
  ntf_method :: string
  ntf_params :: pyval

record JSONRPCErrorResponse =
  err_code :: int
  err_message :: string
  err_data :: pyval
  err_id :: rpc_id

record JSONRPCSuccessResponse =
  res_result :: pyval
  res_id :: rpc_id

datatype rpc_response =
    Success JSONRPCSuccessResponse
  | Failure JSONRPCErrorResponse

definition create_error_response :: "int \<Rightarrow> string \<Rightarrow> pyval \<Rightarrow> rpc_id \<Rightarrow> JSONRPCErrorResponse" where
  "create_error_response code message data msg_id =
     \<lparr>err_code = code, err_message = message, err_data = data, err_id = msg_id\<rparr>"

definition create_success_response :: "pyval \<Rightarrow> rpc_id \<Rightarrow> JSONRPCSuccessResponse" where
  "create_success_response result msg_id = \<lparr>res_result = result, res_id = msg_id\<rparr>"

fun id_value :: "rpc_id \<Rightarrow> pyval" where
  "id_value IdNull = PNone"
| "id_value (IdInt i) = PInt i"
| "id_value (IdStr s) = PStr s"

text \<open>The method \<^verbatim>\<open>.dict()\<close> of the two response classes.\<close>

definition error_dict :: "JSONRPCErrorResponse \<Rightarrow> pyval" where
  "error_dict e =
     PDict [(''jsonrpc'', PStr ''2.0''),
            (''error'', PDict [(''code'', PInt (err_code e)),
                               (''message'', PStr (err_message e)),
                               (''data'', err_data e)]),
            (''id'', id_value (err_id e))]"

definition success_dict :: "JSONRPCSuccessResponse \<Rightarrow> pyval" where
  "success_dict r =
     PDict [(''jsonrpc'', PStr ''2.0''),
            (''result'', res_result r),
            (''id'', id_value (res_id r))]"

fun response_dict :: "rpc_response \<Rightarrow> pyval" where
  "response_dict (Success r) = success_dict r"
| "response_dict (Failure e) = error_dict e"

text \<open>
  What \<^verbatim>\<open>MessageValidator.validate_jsonrpc_message\<close> hands back. The three
  \<^verbatim>\<open>isinstance\<close> tests of \<^verbatim>\<open>_handle_jsonrpc\<close> are not exhaustive, so a fourth case
  stands for a return value of any other class.
\<close>

datatype parsed_message =
    ParsedError JSONRPCErrorResponse
  | ParsedNotification JSONRPCNotification
  | ParsedRequest JSONRPCRequest
  | ParsedOther pyval

text \<open>
  The validator is a collaborator of the dispatcher and a parameter of the model. Each of
  its three entry points returns or raises; \<open>'m\<close> is the class of validated domain
  messages. \<^verbatim>\<open>_handle_request\<close> tests such a message with \<^verbatim>\<open>is None\<close>, whereas
  \<^verbatim>\<open>_handle_notification\<close> tests its truth value, which the class of the message
  decides: that test is the parameter \<open>truthy\<close> of the notification path.
\<close>

record 'm MessageValidator =
  validate_jsonrpc_message :: "string \<Rightarrow> exn + parsed_message"
  validate_a2a_message :: "string \<Rightarrow> pyval \<Rightarrow> exn + 'm option"
  validate_business_rules :: "'m \<Rightarrow> exn + bool"

section \<open>The server\<close>

text \<open>
  A handler is an asynchronous callable; awaited, it returns a result or raises. The
  registry \<^verbatim>\<open>self.methods\<close> is a dict from method names to handlers.
\<close>

type_synonym 'm handler = "'m \<Rightarrow> exn + pyval"

record 'm A2AServer =
  host :: "string option"
  port :: "int option"
  methods :: "string \<rightharpoonup> 'm handler"

subsection \<open>\<^verbatim>\<open>__init__\<close>\<close>

text \<open>
  \<^verbatim>\<open>x or y\<close> is \<open>x\<close> when \<open>x\<close> is truthy and \<open>y\<close> otherwise; \<^verbatim>\<open>None\<close>, the empty
  string and \<open>0\<close> are falsy. \<^verbatim>\<open>os.getenv(k, d)\<close> reads the process environment
  \<open>environ\<close>; \<^verbatim>\<open>int\<close> of a string returns or raises \<^verbatim>\<open>ValueError\<close> and is the
  parameter \<open>py_int\<close>.
\<close>

definition getenv :: "(string \<rightharpoonup> string) \<Rightarrow> string \<Rightarrow> string \<Rightarrow> string" where
  "getenv environ k d = (case environ k of None \<Rightarrow> d | Some v \<Rightarrow> v)"

fun truthy_str :: "string option \<Rightarrow> bool" where
  "truthy_str None = False"
| "truthy_str (Some s) = (s \<noteq> [])"

fun truthy_int :: "int option \<Rightarrow> bool" where
  "truthy_int None = False"
| "truthy_int (Some i) = (i \<noteq> 0)"

definition init :: "(string \<rightharpoonup> string) \<Rightarrow> (string \<Rightarrow> exn + int) \<Rightarrow>
    string option \<Rightarrow> int option \<Rightarrow> exn + 'm A2AServer" where
  "init environ py_int host_arg port_arg =
     (let host1 = (if truthy_str host_arg then host_arg
                   else Some (getenv environ ''A2A_HOST'' ''0.0.0.0''))
      in case (if truthy_int port_arg then Inr port_arg
               else map_sum id Some (py_int (getenv environ ''A2A_PORT'' ''8080''))) of
           Inl e \<Rightarrow> Inl e
         | Inr port1 \<Rightarrow>
             (let self = \<lparr>host = host1, port = port1, methods = Map.empty\<rparr>;
                  self = self\<lparr>host := host_arg\<rparr>;
                  self = self\<lparr>port := port_arg\<rparr>
              in Inr self))"

definition register_method :: "'m A2AServer \<Rightarrow> string \<Rightarrow> 'm handler \<Rightarrow> 'm A2AServer \<times> log_entry list" where
  "register_method self method_name handler =
     (self\<lparr>methods := (methods self)(method_name \<mapsto> handler)\<rparr>,
      [LogInfo (''Registered method: '' @ method_name)])"

subsection \<open>\<^verbatim>\<open>_handle_request\<close>\<close>

text \<open>
  \<^verbatim>\<open>self.methods[method]\<close> raises \<^verbatim>\<open>KeyError\<close> on a missing key, and the string of a
  \<^verbatim>\<open>KeyError\<close> is the \<^verbatim>\<open>repr\<close> of the key. Python's \<^verbatim>\<open>repr\<close> of a string (its choice
  of quotes, its escapes) is the parameter \<open>repr\<close>.
\<close>

definition methods_getitem :: "(string \<Rightarrow> string) \<Rightarrow> 'm A2AServer \<Rightarrow> string \<Rightarrow>
    exn + 'm handler" where
  "methods_getitem repr self method =
     (case methods self method of
        None \<Rightarrow> Inl (Exception (repr method))
      | Some handler \<Rightarrow> Inr handler)"

text \<open>
  The body of the \<^verbatim>\<open>try\<close> block: it returns a response or raises. The f-string
  \<^verbatim>\<open>f"Method '{method}' not found"\<close> of the function puts the name between two
  apostrophes, the character \<open>CHR 0x27\<close>.
\<close>

definition handle_request_try :: "(string \<Rightarrow> string) \<Rightarrow> 'm MessageValidator \<Rightarrow>
    'm A2AServer \<Rightarrow> string \<Rightarrow> pyval \<Rightarrow> rpc_id \<Rightarrow> exn + rpc_response" where
  "handle_request_try repr V self method params msg_id =
     (case validate_a2a_message V method params of
        Inl e \<Rightarrow> Inl e
      | Inr None \<Rightarrow>
          Inr (Failure (create_error_response (- 32602) ''Invalid params''
                 (PStr ''Invalid A2A message parameters'') msg_id))
      | Inr (Some a2a_message) \<Rightarrow>
          (case validate_business_rules V a2a_message of
             Inl e \<Rightarrow> Inl e
           | Inr ok \<Rightarrow>
               if \<not> ok then
                 Inr (Failure (create_error_response (- 32602) ''Invalid params''
                        (PStr ''Business rule validation failed'') msg_id))
               else
                 (case methods_getitem repr self method of
                    Inl e \<Rightarrow> Inl e
                  | Inr handler \<Rightarrow>
                      (case handler a2a_message of
                         Inl e \<Rightarrow> Inl e
                       | Inr result \<Rightarrow> Inr (Success (create_success_response result msg_id))))))"

definition handle_request :: "(string \<Rightarrow> string) \<Rightarrow> 'm MessageValidator \<Rightarrow>
    'm A2AServer \<Rightarrow> JSONRPCRequest \<Rightarrow> rpc_response \<times> log_entry list" where
  "handle_request repr V self rpc_request =
     (let method = req_method rpc_request;
          params = req_params rpc_request;
          msg_id = req_id rpc_request
      in if methods self method = None then
           (Failure (create_error_response (- 32601) ''Method not found''
              (PStr (''Method '' @ [CHR 0x27] @ method @ [CHR 0x27] @ '' not found'')) msg_id), [])
         else
           (case handle_request_try repr V self method params msg_id of
              Inr response \<Rightarrow> (response, [])
            | Inl e \<Rightarrow>
                (Failure (create_error_response (- 32603) ''Internal error'' (PStr (str e)) msg_id),
                 [LogError (''Error executing method '' @ method @ '': '' @ str e)])))"

subsection \<open>\<^verbatim>\<open>_handle_notification\<close>\<close>

text \<open>
  The coroutine returns nothing on every path, so its model returns what it logs. The
  result of the handler is dropped. In \<^verbatim>\<open>if a2a_message and
  MessageValidator.validate_business_rules(a2a_message)\<close> the rule checker is called only
  when the message is truthy: \<^verbatim>\<open>None\<close> and a falsy message both go to the \<^verbatim>\<open>else\<close>
  branch.
\<close>

definition handle_notification_try :: "(string \<Rightarrow> string) \<Rightarrow> ('m \<Rightarrow> bool) \<Rightarrow>
    'm MessageValidator \<Rightarrow> 'm A2AServer \<Rightarrow> string \<Rightarrow> pyval \<Rightarrow> exn + log_entry list" where
  "handle_notification_try repr truthy V self method params =
     (case validate_a2a_message V method params of
        Inl e \<Rightarrow> Inl e
      | Inr None \<Rightarrow> Inr [LogWarning (''Invalid notification parameters for '' @ method)]
      | Inr (Some a2a_message) \<Rightarrow>
          if \<not> truthy a2a_message then
            Inr [LogWarning (''Invalid notification parameters for '' @ method)]
          else
            (case validate_business_rules V a2a_message of
               Inl e \<Rightarrow> Inl e
             | Inr ok \<Rightarrow>
                 if ok then
                   (case methods_getitem repr self method of
                      Inl e \<Rightarrow> Inl e
                    | Inr handler \<Rightarrow>
                        (case handler a2a_message of
                           Inl e \<Rightarrow> Inl e
                         | Inr result \<Rightarrow> Inr []))
                 else Inr [LogWarning (''Invalid notification parameters for '' @ method)]))"

definition handle_notification :: "(string \<Rightarrow> string) \<Rightarrow> ('m \<Rightarrow> bool) \<Rightarrow>
    'm MessageValidator \<Rightarrow> 'm A2AServer \<Rightarrow> JSONRPCNotification \<Rightarrow> log_entry list" where
  "handle_notification repr truthy V self notification =
     (let method = ntf_method notification;
          params = ntf_params notification
      in if methods self method = None then
           [LogWarning (''Notification for unknown method: '' @ method)]
         else
           (case handle_notification_try repr truthy V self method params of
              Inr logged \<Rightarrow> logged
            | Inl e \<Rightarrow> [LogError (''Error handling notification '' @ method @ '': '' @ str e)]))"

subsection \<open>\<^verbatim>\<open>_json_response\<close> and \<^verbatim>\<open>_handle_jsonrpc\<close>\<close>

text \<open>
  An \<^verbatim>\<open>aiohttp\<close> response: the status (200 unless given), the body text, the content
  type and the extra headers.
\<close>

record Response =
  status :: nat
  body_text :: "string option"
  content_type :: "string option"
  headers :: "(string \<times> string) list"

definition json_response :: "(pyval \<Rightarrow> string) \<Rightarrow> pyval \<Rightarrow> exn + Response" where
  "json_response enc data =
     (case json_dumps enc data of
        Inl e \<Rightarrow> Inl e
      | Inr t \<Rightarrow>
          Inr \<lparr>status = 200, body_text = Some t, content_type = Some ''application/json'',
               headers = [(''Access-Control-Allow-Origin'', ''*'')]\<rparr>)"

definition no_content :: Response where
  "no_content = \<lparr>status = 204, body_text = None, content_type = None, headers = []\<rparr>"

text \<open>
  The outcome of one call of \<^verbatim>\<open>_handle_jsonrpc\<close>: what the coroutine returns to the
  transport (\<open>Inl e\<close> when it lets \<open>e\<close> escape, \<open>Inr None\<close> when it falls off its end and
  returns Python's \<^verbatim>\<open>None\<close>), the notifications handed to \<^verbatim>\<open>asyncio.create_task\<close>,
  and the log. The argument \<open>request_text\<close> is the outcome of \<^verbatim>\<open>await request.text()\<close>.
\<close>

type_synonym outcome = "(exn + Response option) \<times> JSONRPCNotification list \<times> log_entry list"

definition handle_jsonrpc_try :: "(pyval \<Rightarrow> string) \<Rightarrow> (string \<Rightarrow> string) \<Rightarrow>
    'm MessageValidator \<Rightarrow> 'm A2AServer \<Rightarrow> exn + string \<Rightarrow> outcome" where
  "handle_jsonrpc_try enc repr V self request_text =
     (case request_text of
        Inl e \<Rightarrow> (Inl e, [], [])
      | Inr raw_data \<Rightarrow>
          (let logged = [LogDebug (''Received raw message: '' @ raw_data)]
           in case validate_jsonrpc_message V raw_data of
                Inl e \<Rightarrow> (Inl e, [], logged)
              | Inr (ParsedError parsed_message) \<Rightarrow>
                  (map_sum id Some (json_response enc (error_dict parsed_message)), [], logged)
              | Inr (ParsedNotification parsed_message) \<Rightarrow>
                  (Inr (Some no_content), [parsed_message], logged)
              | Inr (ParsedRequest parsed_message) \<Rightarrow>
                  (case handle_request repr V self parsed_message of
                     (response, logged') \<Rightarrow>
                       (map_sum id Some (json_response enc (response_dict response)), [],
                        logged @ logged'))
              | Inr (ParsedOther parsed_message) \<Rightarrow> (Inr None, [], logged)))"

definition handle_jsonrpc :: "(pyval \<Rightarrow> string) \<Rightarrow> (string \<Rightarrow> string) \<Rightarrow>
    'm MessageValidator \<Rightarrow> 'm A2AServer \<Rightarrow> exn + string \<Rightarrow> outcome" where
  "handle_jsonrpc enc repr V self request_text =
     (case handle_jsonrpc_try enc repr V self request_text of
        (Inr returned, tasks, logged) \<Rightarrow> (Inr returned, tasks, logged)
      | (Inl e, tasks, logged) \<Rightarrow>
          (map_sum id Some
             (json_response enc
                (error_dict (create_error_response (- 32603) ''Internal error'' (PStr (str e)) IdNull))),
           tasks, logged @ [LogError (''Error handling request: '' @ str e)]))"

subsection \<open>Reading a response\<close>

fun error_code :: "rpc_response \<Rightarrow> int option" where
  "error_code (Failure e) = Some (err_code e)"
| "error_code (Success r) = None"

fun error_message :: "rpc_response \<Rightarrow> string option" where
  "error_message (Failure e) = Some (err_message e)"
| "error_message (Success r) = None"

section \<open>A sample deployment\<close>

text \<open>
  A small validator, two handlers and a few messages, on which the dispatcher is run. The
  sample validator takes a dict as well-formed parameters, raises on \<^verbatim>\<open>None\<close>, rejects
  anything else, and its business rule refuses the empty dict. Domain messages are the
  parameters themselves.
\<close>

definition ping_request :: JSONRPCRequest where
  "ping_request = \<lparr>req_method = ''PING'', req_params = PDict [(''n'', PInt 1)], req_id = IdInt 1\<rparr>"

definition unknown_request :: JSONRPCRequest where
  "unknown_request = \<lparr>req_method = ''UNKNOWN'', req_params = PDict [], req_id = IdInt 2\<rparr>"

definition none_params_request :: JSONRPCRequest where
  "none_params_request = \<lparr>req_method = ''PING'', req_params = PNone, req_id = IdInt 3\<rparr>"

definition list_params_request :: JSONRPCRequest where
  "list_params_request = \<lparr>req_method = ''PING'', req_params = PList [], req_id = IdInt 4\<rparr>"

definition empty_params_request :: JSONRPCRequest where
  "empty_params_request = \<lparr>req_method = ''PING'', req_params = PDict [], req_id = IdInt 5\<rparr>"

definition fail_request :: JSONRPCRequest where
  "fail_request = \<lparr>req_method = ''FAIL'', req_params = PDict [(''n'', PInt 1)], req_id = IdStr ''f''\<rparr>"

definition fail_notification :: JSONRPCNotification where
  "fail_notification = \<lparr>ntf_method = ''FAIL'', ntf_params = PDict [(''n'', PInt 1)]\<rparr>"

definition quiet_notification :: JSONRPCNotification where
  "quiet_notification = \<lparr>ntf_method = ''PING'', ntf_params = PDict []\<rparr>"

definition sample_parse :: "string \<Rightarrow> exn + parsed_message" where
  "sample_parse raw =
     (if raw = ''ping'' then Inr (ParsedRequest ping_request)
      else if raw = ''unknown'' then Inr (ParsedRequest unknown_request)
      else if raw = ''fail'' then Inr (ParsedRequest fail_request)
      else if raw = ''note'' then Inr (ParsedNotification fail_notification)
      else if raw = ''quiet'' then Inr (ParsedNotification quiet_notification)
      else if raw = ''odd'' then Inr (ParsedOther (PInt 7))
      else if raw = ''crash'' then Inl (Exception ''parser crashed'')
      else Inr (ParsedError \<lparr>err_code = - 32600, err_message = ''Invalid Request'',
                             err_data = PNone, err_id = IdNull\<rparr>))"

definition sample_validate :: "string \<Rightarrow> pyval \<Rightarrow> exn + pyval option" where
  "sample_validate method params =
     (case params of
        PDict kvs \<Rightarrow> Inr (Some params)
      | PNone \<Rightarrow> Inl (Exception ''params is None'')
      | _ \<Rightarrow> Inr None)"

definition sample_validator :: "pyval MessageValidator" where
  "sample_validator =
     \<lparr>validate_jsonrpc_message = sample_parse,
      validate_a2a_message = sample_validate,
      validate_business_rules = (\<lambda>m. Inr (m \<noteq> PDict []))\<rparr>"

definition ping_handler :: "pyval handler" where
  "ping_handler m = Inr (PDict [(''pong'', PBool True)])"

definition fail_handler :: "pyval handler" where
  "fail_handler m = Inl (Exception ''boom'')"

definition sample_server :: "pyval A2AServer" where
  "sample_server =
     fst (register_method
            (fst (register_method \<lparr>host = None, port = None, methods = Map.empty\<rparr>
                    ''PING'' ping_handler))
            ''FAIL'' fail_handler)"

text \<open>The same method names, each bound to the other handler.\<close>

definition swapped_server :: "pyval A2AServer" where
  "swapped_server =
     fst (register_method
            (fst (register_method \<lparr>host = Some ''localhost'', port = Some 9000, methods = Map.empty\<rparr>
                    ''FAIL'' ping_handler))
            ''PING'' fail_handler)"

text \<open>
  The domain messages of the sample are plain values, and their truth value is Python's:
  \<^verbatim>\<open>None\<close>, \<^verbatim>\<open>False\<close>, zero and the empty string, list and dict are falsy.
\<close>

fun py_truthy :: "pyval \<Rightarrow> bool" where
  "py_truthy PNone = False"
| "py_truthy (PBool b) = b"
| "py_truthy (PInt i) = (i \<noteq> 0)"
| "py_truthy (PStr s) = (s \<noteq> [])"
| "py_truthy (PList xs) = (xs \<noteq> [])"
| "py_truthy (PDict kvs) = (kvs \<noteq> [])"
| "py_truthy (PObject ty) = True"

text \<open>
  The names of the sample are made of letters, and the \<^verbatim>\<open>repr\<close> of such a string is the
  string between two apostrophes.
\<close>

definition sample_repr :: "string \<Rightarrow> string" where
  "sample_repr s = [CHR 0x27] @ s @ [CHR 0x27]"

text \<open>The examples do not depend on the JSON text; they use a fixed one.\<close>

definition sample_enc :: "pyval \<Rightarrow> string" where
  "sample_enc v = ''<json>''"

definition sample_int :: "string \<Rightarrow> exn + int" where
  "sample_int s = (if s = ''8080'' then Inr 8080 else Inl (Exception ''invalid literal for int()''))"

section \<open>Facts about serialisation and the transport wrapper\<close>

lemma first_opaque_id_value: "first_opaque (id_value i) = None"
  by (cases i) simp_all

lemma first_opaque_error_dict: "first_opaque (error_dict e) = first_opaque (err_data e)"
  by (cases "first_opaque (err_data e)") (simp_all add: error_dict_def first_opaque_id_value)

lemma first_opaque_success_dict: "first_opaque (success_dict r) = first_opaque (res_result r)"
  by (cases "first_opaque (res_result r)") (simp_all add: success_dict_def first_opaque_id_value)

lemma json_response_encodable:
  "first_opaque data = None \<Longrightarrow>
   json_response enc data =
     Inr \<lparr>status = 200, body_text = Some (enc data), content_type = Some ''application/json'',
          headers = [(''Access-Control-Allow-Origin'', ''*'')]\<rparr>"
  by (simp add: json_response_def json_dumps_def)

lemma json_response_opaque:
  "first_opaque data = Some ty \<Longrightarrow>
   json_response enc data =
     Inl (Exception (''Object of type '' @ ty @ '' is not JSON serializable''))"
  by (simp add: json_response_def json_dumps_def)

lemma json_response_internal_error:
  "json_response enc (error_dict (create_error_response c msg (PStr d) i)) =
     Inr \<lparr>status = 200,
          body_text = Some (enc (error_dict \<lparr>err_code = c, err_message = msg,
                                               err_data = PStr d, err_id = i\<rparr>)),
          content_type = Some ''application/json'',
          headers = [(''Access-Control-Allow-Origin'', ''*'')]\<rparr>"
  by (simp add: json_response_encodable first_opaque_error_dict create_error_response_def)

lemma handle_jsonrpc_caught:
  "handle_jsonrpc_try enc repr V self request_text = (Inl e, tasks, logged) \<Longrightarrow>
   handle_jsonrpc enc repr V self request_text =
     (Inr (Some \<lparr>status = 200,
                 body_text = Some (enc (error_dict \<lparr>err_code = - 32603,
                    err_message = ''Internal error'', err_data = PStr (str e),
                    err_id = IdNull\<rparr>)),
                 content_type = Some ''application/json'',
                 headers = [(''Access-Control-Allow-Origin'', ''*'')]\<rparr>),
      tasks, logged @ [LogError (''Error handling request: '' @ str e)])"
  by (simp add: handle_jsonrpc_def json_response_internal_error)

lemma handle_jsonrpc_returned:
  "handle_jsonrpc_try enc repr V self request_text = (Inr returned, tasks, logged) \<Longrightarrow>
   handle_jsonrpc enc repr V self request_text = (Inr returned, tasks, logged)"
  by (simp add: handle_jsonrpc_def)

lemma handle_jsonrpc_try_request:
  "validate_jsonrpc_message V raw = Inr (ParsedRequest r) \<Longrightarrow>
   handle_request repr V self r = (response, logged) \<Longrightarrow>
   handle_jsonrpc_try enc repr V self (Inr raw) =
     (map_sum id Some (json_response enc (response_dict response)), [],
      LogDebug (''Received raw message: '' @ raw) # logged)"
  by (simp add: handle_jsonrpc_try_def)

lemma handle_jsonrpc_request:
  "validate_jsonrpc_message V raw = Inr (ParsedRequest r) \<Longrightarrow>
   handle_request repr V self r = (response, logged) \<Longrightarrow>
   first_opaque (response_dict response) = None \<Longrightarrow>
   handle_jsonrpc enc repr V self (Inr raw) =
     (Inr (Some \<lparr>status = 200, body_text = Some (enc (response_dict response)),
                 content_type = Some ''application/json'',
                 headers = [(''Access-Control-Allow-Origin'', ''*'')]\<rparr>), [],
      LogDebug (''Received raw message: '' @ raw) # logged)"
  by (simp add: handle_jsonrpc_def handle_jsonrpc_try_request json_response_encodable)

lemma handle_jsonrpc_failure:
  "validate_jsonrpc_message V raw = Inr (ParsedRequest r) \<Longrightarrow>
   handle_request repr V self r =
     (Failure \<lparr>err_code = c, err_message = msg, err_data = PStr d, err_id = i\<rparr>, logged) \<Longrightarrow>
   fst (handle_jsonrpc enc repr V self (Inr raw)) =
     Inr (Some \<lparr>status = 200,
                 body_text = Some (enc (error_dict \<lparr>err_code = c, err_message = msg,
                                                      err_data = PStr d, err_id = i\<rparr>)),
                 content_type = Some ''application/json'',
                 headers = [(''Access-Control-Allow-Origin'', ''*'')]\<rparr>)"
  by (simp add: handle_jsonrpc_request first_opaque_error_dict)

lemma handle_jsonrpc_notification:
  "validate_jsonrpc_message V raw = Inr (ParsedNotification n) \<Longrightarrow>
   handle_jsonrpc enc repr V self (Inr raw) =
     (Inr (Some \<lparr>status = 204, body_text = None, content_type = None, headers = []\<rparr>), [n],
      [LogDebug (''Received raw message: '' @ raw)])"
  by (simp add: handle_jsonrpc_def handle_jsonrpc_try_def no_content_def)

lemma map_sum_Some_not_None: "map_sum id Some x \<noteq> Inr None"
  by (cases x) simp_all

lemma handle_jsonrpc_try_None:
  "fst (handle_jsonrpc_try enc repr V self request_text) = Inr None \<Longrightarrow>
   \<exists>raw x. request_text = Inr raw \<and> validate_jsonrpc_message V raw = Inr (ParsedOther x)"
  by (auto simp add: handle_jsonrpc_try_def no_content_def map_sum_Some_not_None Let_def
      split: sum.splits parsed_message.splits prod.splits)

lemma handle_jsonrpc_try_registry_free:
  "\<forall>raw r. request_text = Inr raw \<longrightarrow> validate_jsonrpc_message V raw \<noteq> Inr (ParsedRequest r) \<Longrightarrow>
   handle_jsonrpc_try enc repr V s1 request_text = handle_jsonrpc_try enc repr V s2 request_text"
  by (auto simp add: handle_jsonrpc_try_def Let_def split: sum.splits parsed_message.splits)

section \<open>Facts about the request and notification pipelines\<close>

lemma handle_request_unknown:
  "methods self (req_method r) = None \<Longrightarrow>
   handle_request repr V self r =
     (Failure \<lparr>err_code = - 32601, err_message = ''Method not found'',
               err_data = PStr (''Method '' @ [CHR 0x27] @ req_method r @ [CHR 0x27] @ '' not found''),
               err_id = req_id r\<rparr>, [])"
  by (simp add: handle_request_def create_error_response_def)

lemma handle_request_registered:
  "methods self (req_method r) = Some h \<Longrightarrow>
   handle_request repr V self r =
     (case handle_request_try repr V self (req_method r) (req_params r) (req_id r) of
        Inr response \<Rightarrow> (response, [])
      | Inl e \<Rightarrow>
          (Failure \<lparr>err_code = - 32603, err_message = ''Internal error'',
                    err_data = PStr (str e), err_id = req_id r\<rparr>,
           [LogError (''Error executing method '' @ req_method r @ '': '' @ str e)]))"
  by (simp add: handle_request_def create_error_response_def Let_def split: sum.splits)

lemma handle_request_raised:
  "methods self (req_method r) = Some h \<Longrightarrow>
   handle_request_try repr V self (req_method r) (req_params r) (req_id r) = Inl e \<Longrightarrow>
   handle_request repr V self r =
     (Failure \<lparr>err_code = - 32603, err_message = ''Internal error'',
               err_data = PStr (str e), err_id = req_id r\<rparr>,
      [LogError (''Error executing method '' @ req_method r @ '': '' @ str e)])"
  by (simp add: handle_request_registered)

lemma handle_request_try_invoke:
  "methods self method = Some h \<Longrightarrow>
   validate_a2a_message V method params = Inr (Some m) \<Longrightarrow>
   validate_business_rules V m = Inr True \<Longrightarrow>
   handle_request_try repr V self method params msg_id =
     (case h m of
        Inl e \<Rightarrow> Inl e
      | Inr result \<Rightarrow> Inr (Success \<lparr>res_result = result, res_id = msg_id\<rparr>))"
  by (simp add: handle_request_try_def methods_getitem_def create_success_response_def
      split: sum.splits)

lemma handle_notification_cases:
  "(\<exists>h m v. methods self (ntf_method n) = Some h \<and>
       validate_a2a_message V (ntf_method n) (ntf_params n) = Inr (Some m) \<and> truthy m \<and>
       validate_business_rules V m = Inr True \<and> h m = Inr v \<and>
       handle_notification repr truthy V self n = []) \<or>
   (methods self (ntf_method n) = None \<and>
       handle_notification repr truthy V self n =
         [LogWarning (''Notification for unknown method: '' @ ntf_method n)]) \<or>
   (methods self (ntf_method n) \<noteq> None \<and>
       (validate_a2a_message V (ntf_method n) (ntf_params n) = Inr None \<or>
        (\<exists>m. validate_a2a_message V (ntf_method n) (ntf_params n) = Inr (Some m) \<and>
             (\<not> truthy m \<or> validate_business_rules V m = Inr False))) \<and>
       handle_notification repr truthy V self n =
         [LogWarning (''Invalid notification parameters for '' @ ntf_method n)]) \<or>
   (\<exists>e. methods self (ntf_method n) \<noteq> None \<and>
       (validate_a2a_message V (ntf_method n) (ntf_params n) = Inl e \<or>
        (\<exists>m. validate_a2a_message V (ntf_method n) (ntf_params n) = Inr (Some m) \<and>
             truthy m \<and> validate_business_rules V m = Inl e) \<or>
        (\<exists>h m. methods self (ntf_method n) = Some h \<and>
             validate_a2a_message V (ntf_method n) (ntf_params n) = Inr (Some m) \<and>
             truthy m \<and> validate_business_rules V m = Inr True \<and> h m = Inl e)) \<and>
       handle_notification repr truthy V self n =
         [LogError (''Error handling notification '' @ ntf_method n @ '': '' @ str e)])"
proof (cases "methods self (ntf_method n)")
  case None
  then show ?thesis
    by (simp add: handle_notification_def)
next
  case (Some h)
  then have run: "handle_notification repr truthy V self n =
      (case handle_notification_try repr truthy V self (ntf_method n) (ntf_params n) of
         Inr logged \<Rightarrow> logged
       | Inl e \<Rightarrow>
           [LogError (''Error handling notification '' @ ntf_method n @ '': '' @ str e)])"
    by (simp add: handle_notification_def Let_def)
  show ?thesis
  proof (cases "validate_a2a_message V (ntf_method n) (ntf_params n)")
    case (Inl e)
    with Some run show ?thesis
      by (simp add: handle_notification_try_def)
  next
    case (Inr found)
    show ?thesis
    proof (cases found)
      case None
      with Inr Some run show ?thesis
        by (simp add: handle_notification_try_def)
    next
      case found: (Some m)
      note valid = Inr [unfolded found]
      show ?thesis
      proof (cases "truthy m")
        case False
        with valid Some run show ?thesis
          by (simp add: handle_notification_try_def)
      next
        case True
        show ?thesis
        proof (cases "validate_business_rules V m")
          case (Inl e)
          with True valid Some run show ?thesis
            by (simp add: handle_notification_try_def)
        next
          case (Inr ok)
          show ?thesis
          proof (cases ok)
            case False
            with Inr True valid Some run show ?thesis
              by (simp add: handle_notification_try_def)
          next
            case ok: True
            show ?thesis
            proof (cases "h m")
              case (Inl e)
              with ok Inr True valid Some run show ?thesis
                by (simp add: handle_notification_try_def methods_getitem_def)
            next
              case (Inr v)
              with ok \<open>validate_business_rules V m = Inr ok\<close> True valid Some run show ?thesis
                by (simp add: handle_notification_try_def methods_getitem_def)
            qed
          qed
        qed
      qed
    qed
  qed
qed

subsection \<open>The sample deployment, evaluated\<close>

lemma sample_methods:
  "methods sample_server ''PING'' = Some ping_handler"
  "methods sample_server ''FAIL'' = Some fail_handler"
  "methods sample_server ''UNKNOWN'' = None"
  "methods swapped_server ''PING'' = Some fail_handler"
  "methods swapped_server ''FAIL'' = Some ping_handler"
  by (simp_all add: sample_server_def swapped_server_def register_method_def)

lemma sample_dom: "dom (methods sample_server) = dom (methods swapped_server)"
  by (auto simp add: sample_server_def swapped_server_def register_method_def)

lemma sample_validator_simps:
  "validate_jsonrpc_message sample_validator = sample_parse"
  "validate_a2a_message sample_validator = sample_validate"
  "validate_business_rules sample_validator m = Inr (m \<noteq> PDict [])"
  by (simp_all add: sample_validator_def)

lemmas sample_requests =
  ping_request_def unknown_request_def none_params_request_def list_params_request_def
  empty_params_request_def fail_request_def fail_notification_def quiet_notification_def

section \<open>The claims\<close>

text \<open>
  Claim C1. A request whose method is registered, whose parameters the validator turns into
  a domain message, whose domain message passes the business rules and whose handler
  returns a value \<open>v\<close> is answered by \<^verbatim>\<open>_handle_request\<close> with the success object
  \<open>{result: v, id: request id}\<close>, and nothing is logged. When the request came in as the
  payload \<open>raw\<close> and \<open>v\<close> can be encoded as JSON, \<^verbatim>\<open>_handle_jsonrpc\<close> returns the HTTP
  response whose body is the JSON text of that success object.
\<close>

theorem dispatch_success:
  assumes "methods self (req_method r) = Some h"
    and "validate_a2a_message V (req_method r) (req_params r) = Inr (Some m)"
    and "validate_business_rules V m = Inr True"
    and "h m = Inr v"
  shows "handle_request repr V self r = (Success \<lparr>res_result = v, res_id = req_id r\<rparr>, []) \<and>
    (validate_jsonrpc_message V raw = Inr (ParsedRequest r) \<longrightarrow> first_opaque v = None \<longrightarrow>
       fst (handle_jsonrpc enc repr V self (Inr raw)) =
         Inr (Some \<lparr>status = 200,
                     body_text = Some (enc (success_dict \<lparr>res_result = v, res_id = req_id r\<rparr>)),
                     content_type = Some ''application/json'',
                     headers = [(''Access-Control-Allow-Origin'', ''*'')]\<rparr>))"
proof -
  have req: "handle_request repr V self r = (Success \<lparr>res_result = v, res_id = req_id r\<rparr>, [])"
    using assms by (simp add: handle_request_registered handle_request_try_invoke)
  show ?thesis
    using req by (simp add: handle_jsonrpc_request first_opaque_success_dict)
qed

theorem dispatch_success_witness:
  "methods sample_server (req_method ping_request) = Some ping_handler \<and>
   validate_a2a_message sample_validator (req_method ping_request) (req_params ping_request) =
     Inr (Some (PDict [(''n'', PInt 1)])) \<and>
   validate_business_rules sample_validator (PDict [(''n'', PInt 1)]) = Inr True \<and>
   ping_handler (PDict [(''n'', PInt 1)]) = Inr (PDict [(''pong'', PBool True)]) \<and>
   validate_jsonrpc_message sample_validator ''ping'' = Inr (ParsedRequest ping_request) \<and>
   first_opaque (PDict [(''pong'', PBool True)]) = None \<and>
   handle_request sample_repr sample_validator sample_server ping_request =
     (Success \<lparr>res_result = PDict [(''pong'', PBool True)], res_id = IdInt 1\<rparr>, []) \<and>
   fst (handle_jsonrpc sample_enc sample_repr sample_validator sample_server (Inr ''ping'')) =
     Inr (Some \<lparr>status = 200,
                 body_text = Some (sample_enc (success_dict
                    \<lparr>res_result = PDict [(''pong'', PBool True)], res_id = IdInt 1\<rparr>)),
                 content_type = Some ''application/json'',
                 headers = [(''Access-Control-Allow-Origin'', ''*'')]\<rparr>)"
proof -
  have a: "methods sample_server (req_method ping_request) = Some ping_handler"
    by (simp add: sample_methods ping_request_def)
  have b: "validate_a2a_message sample_validator (req_method ping_request)
      (req_params ping_request) = Inr (Some (PDict [(''n'', PInt 1)]))"
    by (simp add: sample_validator_simps sample_validate_def ping_request_def)
  have c: "validate_business_rules sample_validator (PDict [(''n'', PInt 1)]) = Inr True"
    by (simp add: sample_validator_simps)
  have d: "ping_handler (PDict [(''n'', PInt 1)]) = Inr (PDict [(''pong'', PBool True)])"
    by (simp add: ping_handler_def)
  have e: "validate_jsonrpc_message sample_validator ''ping'' = Inr (ParsedRequest ping_request)"
    by (simp add: sample_validator_simps sample_parse_def)
  have f: "first_opaque (PDict [(''pong'', PBool True)]) = None"
    by simp
  have g: "req_id ping_request = IdInt 1"
    by (simp add: ping_request_def)
  show ?thesis
    using dispatch_success [OF a b c d, where raw = "''ping''" and enc = sample_enc
        and repr = sample_repr] a b c d e f g
    by simp
qed

text \<open>
  Claim C2. When the parser classifies the payload as a notification, \<^verbatim>\<open>_handle_jsonrpc\<close>
  returns the empty response with status 204, whatever the registry and the validator do
  with the notification afterwards; the notification is handed to one background task and
  only the receipt of the payload is logged. The background task \<^verbatim>\<open>_handle_notification\<close>
  returns nothing and lets no exception out. Either the handler ran and returned (nothing
  is logged); or the method is unknown (one warning); or the validator returned no message
  or a falsy one, or the business rules refused it (one warning); or the validator, the
  rule checker or the handler raised (one error record carrying the exception's text).
\<close>

theorem notification_no_content:
  assumes "validate_jsonrpc_message V raw = Inr (ParsedNotification n)"
  shows "handle_jsonrpc enc repr V self (Inr raw) =
      (Inr (Some \<lparr>status = 204, body_text = None, content_type = None, headers = []\<rparr>), [n],
       [LogDebug (''Received raw message: '' @ raw)]) \<and>
    ((\<exists>h m v. methods self (ntf_method n) = Some h \<and>
         validate_a2a_message V (ntf_method n) (ntf_params n) = Inr (Some m) \<and> truthy m \<and>
         validate_business_rules V m = Inr True \<and> h m = Inr v \<and>
         handle_notification repr truthy V self n = []) \<or>
     (methods self (ntf_method n) = None \<and>
         handle_notification repr truthy V self n =
           [LogWarning (''Notification for unknown method: '' @ ntf_method n)]) \<or>
     (methods self (ntf_method n) \<noteq> None \<and>
         (validate_a2a_message V (ntf_method n) (ntf_params n) = Inr None \<or>
          (\<exists>m. validate_a2a_message V (ntf_method n) (ntf_params n) = Inr (Some m) \<and>
               (\<not> truthy m \<or> validate_business_rules V m = Inr False))) \<and>
         handle_notification repr truthy V self n =
           [LogWarning (''Invalid notification parameters for '' @ ntf_method n)]) \<or>
     (\<exists>e. methods self (ntf_method n) \<noteq> None \<and>
         (validate_a2a_message V (ntf_method n) (ntf_params n) = Inl e \<or>
          (\<exists>m. validate_a2a_message V (ntf_method n) (ntf_params n) = Inr (Some m) \<and>
               truthy m \<and> validate_business_rules V m = Inl e) \<or>
          (\<exists>h m. methods self (ntf_method n) = Some h \<and>
               validate_a2a_message V (ntf_method n) (ntf_params n) = Inr (Some m) \<and>
               truthy m \<and> validate_business_rules V m = Inr True \<and> h m = Inl e)) \<and>
         handle_notification repr truthy V self n =
           [LogError (''Error handling notification '' @ ntf_method n @ '': '' @ str e)]))"
  using handle_jsonrpc_notification [OF assms, where enc = enc and repr = repr and self = self]
    handle_notification_cases [where self = self and n = n and V = V and truthy = truthy
      and repr = repr]
  by simp

theorem notification_no_content_witness:
  "validate_jsonrpc_message sample_validator ''note'' = Inr (ParsedNotification fail_notification) \<and>
   handle_jsonrpc sample_enc sample_repr sample_validator sample_server (Inr ''note'') =
     (Inr (Some \<lparr>status = 204, body_text = None, content_type = None, headers = []\<rparr>),
      [fail_notification], [LogDebug ''Received raw message: note'']) \<and>
   handle_notification sample_repr py_truthy sample_validator sample_server fail_notification =
     [LogError ''Error handling notification FAIL: boom''] \<and>
   validate_jsonrpc_message sample_validator ''quiet'' = Inr (ParsedNotification quiet_notification) \<and>
   handle_jsonrpc sample_enc sample_repr sample_validator sample_server (Inr ''quiet'') =
     (Inr (Some \<lparr>status = 204, body_text = None, content_type = None, headers = []\<rparr>),
      [quiet_notification], [LogDebug ''Received raw message: quiet'']) \<and>
   handle_notification sample_repr py_truthy sample_validator sample_server quiet_notification =
     [LogWarning ''Invalid notification parameters for PING'']"
proof -
  have a: "validate_jsonrpc_message sample_validator ''note'' =
      Inr (ParsedNotification fail_notification)"
    by (simp add: sample_validator_simps sample_parse_def)
  have b: "methods sample_server (ntf_method fail_notification) = Some fail_handler"
    by (simp add: sample_methods fail_notification_def)
  have c: "validate_a2a_message sample_validator (ntf_method fail_notification)
      (ntf_params fail_notification) = Inr (Some (PDict [(''n'', PInt 1)]))"
    by (simp add: sample_validator_simps sample_validate_def fail_notification_def)
  have d: "validate_business_rules sample_validator (PDict [(''n'', PInt 1)]) = Inr True"
    by (simp add: sample_validator_simps)
  have e: "fail_handler (PDict [(''n'', PInt 1)]) = Inl (Exception ''boom'')"
    by (simp add: fail_handler_def)
  have f: "ntf_method fail_notification = ''FAIL''"
    by (simp add: fail_notification_def)
  have loud: "handle_jsonrpc sample_enc sample_repr sample_validator sample_server (Inr ''note'') =
      (Inr (Some \<lparr>status = 204, body_text = None, content_type = None, headers = []\<rparr>),
       [fail_notification], [LogDebug ''Received raw message: note'']) \<and>
    handle_notification sample_repr py_truthy sample_validator sample_server fail_notification =
      [LogError ''Error handling notification FAIL: boom'']"
    using notification_no_content [OF a, where enc = sample_enc and repr = sample_repr
        and self = sample_server and truthy = py_truthy] b c d e f
    by auto
  have a': "validate_jsonrpc_message sample_validator ''quiet'' =
      Inr (ParsedNotification quiet_notification)"
    by (simp add: sample_validator_simps sample_parse_def)
  have b': "methods sample_server (ntf_method quiet_notification) = Some ping_handler"
    by (simp add: sample_methods quiet_notification_def)
  have c': "validate_a2a_message sample_validator (ntf_method quiet_notification)
      (ntf_params quiet_notification) = Inr (Some (PDict []))"
    by (simp add: sample_validator_simps sample_validate_def quiet_notification_def)
  have f': "ntf_method quiet_notification = ''PING''"
    by (simp add: quiet_notification_def)
  have quiet: "handle_jsonrpc sample_enc sample_repr sample_validator sample_server (Inr ''quiet'') =
      (Inr (Some \<lparr>status = 204, body_text = None, content_type = None, headers = []\<rparr>),
       [quiet_notification], [LogDebug ''Received raw message: quiet'']) \<and>
    handle_notification sample_repr py_truthy sample_validator sample_server quiet_notification =
      [LogWarning ''Invalid notification parameters for PING'']"
    using notification_no_content [OF a', where enc = sample_enc and repr = sample_repr
        and self = sample_server and truthy = py_truthy] b' c' f'
    by auto
  show ?thesis
    using a a' loud quiet by simp
qed

text \<open>
  Claim C3. A request whose method name is not a key of the registry is answered with the
  error \<open>-32601\<close> "Method not found", with the request's id and with data
  \<^verbatim>\<open>Method '<name>' not found\<close>, for every validator: the registry is consulted before the
  parameters are looked at. At the transport, the response body is the JSON text of that
  error object.
\<close>

theorem unknown_method_error:
  assumes "methods self (req_method r) = None"
  shows "handle_request repr V self r =
      (Failure \<lparr>err_code = - 32601, err_message = ''Method not found'',
                err_data = PStr (''Method '' @ [CHR 0x27] @ req_method r @ [CHR 0x27] @ '' not found''),
                err_id = req_id r\<rparr>, []) \<and>
    (validate_jsonrpc_message V raw = Inr (ParsedRequest r) \<longrightarrow>
       fst (handle_jsonrpc enc repr V self (Inr raw)) =
         Inr (Some \<lparr>status = 200,
                     body_text = Some (enc (error_dict \<lparr>err_code = - 32601,
                        err_message = ''Method not found'',
                        err_data = PStr (''Method '' @ [CHR 0x27] @ req_method r @ [CHR 0x27] @ '' not found''),
                        err_id = req_id r\<rparr>)),
                     content_type = Some ''application/json'',
                     headers = [(''Access-Control-Allow-Origin'', ''*'')]\<rparr>))"
  using handle_request_unknown [OF assms, where V = V and repr = repr]
  by (simp add: handle_jsonrpc_failure)

theorem unknown_method_error_witness:
  "methods sample_server (req_method unknown_request) = None \<and>
   validate_jsonrpc_message sample_validator ''unknown'' = Inr (ParsedRequest unknown_request) \<and>
   handle_request sample_repr sample_validator sample_server unknown_request =
     (Failure \<lparr>err_code = - 32601, err_message = ''Method not found'',
               err_data = PStr (''Method '' @ [CHR 0x27] @ ''UNKNOWN'' @ [CHR 0x27] @ '' not found''),
               err_id = IdInt 2\<rparr>, []) \<and>
   fst (handle_jsonrpc sample_enc sample_repr sample_validator sample_server (Inr ''unknown'')) =
     Inr (Some \<lparr>status = 200,
                 body_text = Some (sample_enc (error_dict \<lparr>err_code = - 32601,
                    err_message = ''Method not found'',
                    err_data = PStr (''Method '' @ [CHR 0x27] @ ''UNKNOWN'' @ [CHR 0x27] @ '' not found''),
                    err_id = IdInt 2\<rparr>)),
                 content_type = Some ''application/json'',
                 headers = [(''Access-Control-Allow-Origin'', ''*'')]\<rparr>)"
proof -
  have a: "methods sample_server (req_method unknown_request) = None"
    by (simp add: sample_methods unknown_request_def)
  have b: "validate_jsonrpc_message sample_validator ''unknown'' =
      Inr (ParsedRequest unknown_request)"
    by (simp add: sample_validator_simps sample_parse_def)
  have c: "req_method unknown_request = ''UNKNOWN''" "req_id unknown_request = IdInt 2"
    by (simp_all add: unknown_request_def)
  show ?thesis
    using unknown_method_error [OF a, where V = sample_validator and raw = "''unknown''"
        and enc = sample_enc and repr = sample_repr] a b c
    by simp
qed

text \<open>
  Claim C4, as amended. When the method is registered and the domain validator raises
  during parameter validation, the exception is caught by the \<^verbatim>\<open>except Exception\<close> clause
  of \<^verbatim>\<open>_handle_request\<close>: the answer is the error \<open>-32603\<close> "Internal error" with the
  request's id, its data is the text of the exception, and one error record is logged.
\<close>

theorem validator_exception_internal_error:
  assumes "methods self (req_method r) = Some h"
    and "validate_a2a_message V (req_method r) (req_params r) = Inl e"
  shows "handle_request repr V self r =
      (Failure \<lparr>err_code = - 32603, err_message = ''Internal error'',
                err_data = PStr (str e), err_id = req_id r\<rparr>,
       [LogError (''Error executing method '' @ req_method r @ '': '' @ str e)])"
proof -
  have "handle_request_try repr V self (req_method r) (req_params r) (req_id r) = Inl e"
    using assms(2) by (simp add: handle_request_try_def)
  with assms(1) show ?thesis
    by (rule handle_request_raised)
qed

theorem validator_exception_internal_error_witness:
  "methods sample_server (req_method none_params_request) = Some ping_handler \<and>
   validate_a2a_message sample_validator (req_method none_params_request)
     (req_params none_params_request) = Inl (Exception ''params is None'') \<and>
   handle_request sample_repr sample_validator sample_server none_params_request =
     (Failure \<lparr>err_code = - 32603, err_message = ''Internal error'',
               err_data = PStr ''params is None'', err_id = IdInt 3\<rparr>,
      [LogError ''Error executing method PING: params is None''])"
proof -
  have a: "methods sample_server (req_method none_params_request) = Some ping_handler"
    by (simp add: sample_methods none_params_request_def)
  have b: "validate_a2a_message sample_validator (req_method none_params_request)
      (req_params none_params_request) = Inl (Exception ''params is None'')"
    by (simp add: sample_validator_simps sample_validate_def none_params_request_def)
  have c: "req_method none_params_request = ''PING''" "req_id none_params_request = IdInt 3"
    by (simp_all add: none_params_request_def)
  show ?thesis
    using validator_exception_internal_error [OF a b] a b c
    by simp
qed

text \<open>
  Claim C4 as stated fails: on the sample deployment the request with parameters
  \<^verbatim>\<open>None\<close> makes the validator raise, the method is registered, and the error code of the
  answer is \<open>-32603\<close>, not \<open>-32602\<close>.
\<close>

theorem validator_exception_counterexample:
  "methods sample_server (req_method none_params_request) = Some ping_handler \<and>
   validate_a2a_message sample_validator (req_method none_params_request)
     (req_params none_params_request) = Inl (Exception ''params is None'') \<and>
   error_code (fst (handle_request sample_repr sample_validator sample_server none_params_request)) =
     Some (- 32603) \<and>
   error_code (fst (handle_request sample_repr sample_validator sample_server none_params_request)) \<noteq>
     Some (- 32602)"
  by (simp add: handle_request_def handle_request_try_def create_error_response_def
      sample_methods sample_validator_simps sample_validate_def none_params_request_def)

text \<open>
  Claim C5. When the method is registered, validation passes and the handler raises, the
  answer is the error \<open>-32603\<close> "Internal error" with the request's id, and its data is
  the text of the exception; one error record is logged. At the transport, the response
  body is the JSON text of that error object.
\<close>

theorem handler_exception_internal_error:
  assumes "methods self (req_method r) = Some h"
    and "validate_a2a_message V (req_method r) (req_params r) = Inr (Some m)"
    and "validate_business_rules V m = Inr True"
    and "h m = Inl e"
  shows "handle_request repr V self r =
      (Failure \<lparr>err_code = - 32603, err_message = ''Internal error'',
                err_data = PStr (str e), err_id = req_id r\<rparr>,
       [LogError (''Error executing method '' @ req_method r @ '': '' @ str e)]) \<and>
    (validate_jsonrpc_message V raw = Inr (ParsedRequest r) \<longrightarrow>
       fst (handle_jsonrpc enc repr V self (Inr raw)) =
         Inr (Some \<lparr>status = 200,
                     body_text = Some (enc (error_dict \<lparr>err_code = - 32603,
                        err_message = ''Internal error'',
                        err_data = PStr (str e), err_id = req_id r\<rparr>)),
                     content_type = Some ''application/json'',
                     headers = [(''Access-Control-Allow-Origin'', ''*'')]\<rparr>))"
proof -
  have "handle_request_try repr V self (req_method r) (req_params r) (req_id r) = Inl e"
    using assms by (simp add: handle_request_try_invoke)
  with assms(1) have req: "handle_request repr V self r =
      (Failure \<lparr>err_code = - 32603, err_message = ''Internal error'',
                err_data = PStr (str e), err_id = req_id r\<rparr>,
       [LogError (''Error executing method '' @ req_method r @ '': '' @ str e)])"
    by (rule handle_request_raised)
  show ?thesis
    using req by (simp add: handle_jsonrpc_failure)
qed

theorem handler_exception_internal_error_witness:
  "methods sample_server (req_method fail_request) = Some fail_handler \<and>
   validate_a2a_message sample_validator (req_method fail_request) (req_params fail_request) =
     Inr (Some (PDict [(''n'', PInt 1)])) \<and>
   validate_business_rules sample_validator (PDict [(''n'', PInt 1)]) = Inr True \<and>
   fail_handler (PDict [(''n'', PInt 1)]) = Inl (Exception ''boom'') \<and>
   validate_jsonrpc_message sample_validator ''fail'' = Inr (ParsedRequest fail_request) \<and>
   handle_request sample_repr sample_validator sample_server fail_request =
     (Failure \<lparr>err_code = - 32603, err_message = ''Internal error'',
               err_data = PStr ''boom'', err_id = IdStr ''f''\<rparr>,
      [LogError ''Error executing method FAIL: boom'']) \<and>
   fst (handle_jsonrpc sample_enc sample_repr sample_validator sample_server (Inr ''fail'')) =
     Inr (Some \<lparr>status = 200,
                 body_text = Some (sample_enc (error_dict \<lparr>err_code = - 32603,
                    err_message = ''Internal error'',
                    err_data = PStr ''boom'', err_id = IdStr ''f''\<rparr>)),
                 content_type = Some ''application/json'',
                 headers = [(''Access-Control-Allow-Origin'', ''*'')]\<rparr>)"
proof -
  have a: "methods sample_server (req_method fail_request) = Some fail_handler"
    by (simp add: sample_methods fail_request_def)
  have b: "validate_a2a_message sample_validator (req_method fail_request)
      (req_params fail_request) = Inr (Some (PDict [(''n'', PInt 1)]))"
    by (simp add: sample_validator_simps sample_validate_def fail_request_def)
  have c: "validate_business_rules sample_validator (PDict [(''n'', PInt 1)]) = Inr True"
    by (simp add: sample_validator_simps)
  have d: "fail_handler (PDict [(''n'', PInt 1)]) = Inl (Exception ''boom'')"
    by (simp add: fail_handler_def)
  have e: "validate_jsonrpc_message sample_validator ''fail'' = Inr (ParsedRequest fail_request)"
    by (simp add: sample_validator_simps sample_parse_def)
  have f: "req_method fail_request = ''FAIL''" "req_id fail_request = IdStr ''f''"
    by (simp_all add: fail_request_def)
  show ?thesis
    using handler_exception_internal_error [OF a b c d, where raw = "''fail''"
        and enc = sample_enc and repr = sample_repr] a b c d e f
    by simp
qed

text \<open>
  Claim C6, as amended. For requests with a registered method, a schema-validation failure
  (the validator returns no domain message) and a business-rule failure (the checker
  returns false) both yield an error with code \<open>-32602\<close> and the request's id. The two
  errors have the same message, "Invalid params"; they differ in their data, which is
  "Invalid A2A message parameters" for the first cause and "Business rule validation
  failed" for the second, so a caller tells the causes apart by the data member.
\<close>

theorem invalid_params_causes:
  assumes "methods self (req_method r1) = Some h1"
    and "methods self (req_method r2) = Some h2"
    and "validate_a2a_message V (req_method r1) (req_params r1) = Inr None"
    and "validate_a2a_message V (req_method r2) (req_params r2) = Inr (Some m)"
    and "validate_business_rules V m = Inr False"
  shows "handle_request repr V self r1 =
      (Failure \<lparr>err_code = - 32602, err_message = ''Invalid params'',
                err_data = PStr ''Invalid A2A message parameters'', err_id = req_id r1\<rparr>, []) \<and>
    handle_request repr V self r2 =
      (Failure \<lparr>err_code = - 32602, err_message = ''Invalid params'',
                err_data = PStr ''Business rule validation failed'', err_id = req_id r2\<rparr>, []) \<and>
    PStr ''Invalid A2A message parameters'' \<noteq> PStr ''Business rule validation failed''"
  using assms
  by (simp add: handle_request_registered handle_request_try_def create_error_response_def)

theorem invalid_params_causes_witness:
  "methods sample_server (req_method list_params_request) = Some ping_handler \<and>
   methods sample_server (req_method empty_params_request) = Some ping_handler \<and>
   validate_a2a_message sample_validator (req_method list_params_request)
     (req_params list_params_request) = Inr None \<and>
   validate_a2a_message sample_validator (req_method empty_params_request)
     (req_params empty_params_request) = Inr (Some (PDict [])) \<and>
   validate_business_rules sample_validator (PDict []) = Inr False \<and>
   handle_request sample_repr sample_validator sample_server list_params_request =
     (Failure \<lparr>err_code = - 32602, err_message = ''Invalid params'',
               err_data = PStr ''Invalid A2A message parameters'', err_id = IdInt 4\<rparr>, []) \<and>
   handle_request sample_repr sample_validator sample_server empty_params_request =
     (Failure \<lparr>err_code = - 32602, err_message = ''Invalid params'',
               err_data = PStr ''Business rule validation failed'', err_id = IdInt 5\<rparr>, [])"
proof -
  have a: "methods sample_server (req_method list_params_request) = Some ping_handler"
    by (simp add: sample_methods list_params_request_def)
  have b: "methods sample_server (req_method empty_params_request) = Some ping_handler"
    by (simp add: sample_methods empty_params_request_def)
  have c: "validate_a2a_message sample_validator (req_method list_params_request)
      (req_params list_params_request) = Inr None"
    by (simp add: sample_validator_simps sample_validate_def list_params_request_def)
  have d: "validate_a2a_message sample_validator (req_method empty_params_request)
      (req_params empty_params_request) = Inr (Some (PDict []))"
    by (simp add: sample_validator_simps sample_validate_def empty_params_request_def)
  have e: "validate_business_rules sample_validator (PDict []) = Inr False"
    by (simp add: sample_validator_simps)
  have f: "req_id list_params_request = IdInt 4" "req_id empty_params_request = IdInt 5"
    by (simp_all add: list_params_request_def empty_params_request_def)
  show ?thesis
    using invalid_params_causes [OF a b c d e] a b c d e f
    by simp
qed

text \<open>
  Claim C6 as stated fails: on the sample deployment one request fails the schema and
  another fails the business rule, and the message members of the two answers are equal.
\<close>

theorem invalid_params_message_counterexample:
  "validate_a2a_message sample_validator (req_method list_params_request)
     (req_params list_params_request) = Inr None \<and>
   validate_a2a_message sample_validator (req_method empty_params_request)
     (req_params empty_params_request) = Inr (Some (PDict [])) \<and>
   validate_business_rules sample_validator (PDict []) = Inr False \<and>
   error_message (fst (handle_request sample_repr sample_validator sample_server list_params_request)) =
     Some ''Invalid params'' \<and>
   error_message (fst (handle_request sample_repr sample_validator sample_server empty_params_request)) =
     Some ''Invalid params''"
  by (simp add: handle_request_def handle_request_try_def create_error_response_def
      sample_methods sample_validator_simps sample_validate_def list_params_request_def
      empty_params_request_def)

text \<open>
  Claim C7. Whatever the outcome of reading the body, whatever the validator and the
  handlers do, \<^verbatim>\<open>_handle_jsonrpc\<close> returns and lets no exception through to the
  transport. An exception that escapes the \<^verbatim>\<open>try\<close> block (a failed read of the body, a
  parser that raises, a response that cannot be encoded as JSON) is answered with the
  error \<open>-32603\<close> "Internal error" whose id is null and whose data is the text of the
  exception, and one error record is logged.
\<close>

theorem no_exception_escapes:
  "(\<exists>returned tasks logged.
      handle_jsonrpc enc repr V self request_text = (Inr returned, tasks, logged)) \<and>
   (\<forall>e tasks logged.
      handle_jsonrpc_try enc repr V self request_text = (Inl e, tasks, logged) \<longrightarrow>
      handle_jsonrpc enc repr V self request_text =
        (Inr (Some \<lparr>status = 200,
                    body_text = Some (enc (error_dict \<lparr>err_code = - 32603,
                       err_message = ''Internal error'', err_data = PStr (str e),
                       err_id = IdNull\<rparr>)),
                    content_type = Some ''application/json'',
                    headers = [(''Access-Control-Allow-Origin'', ''*'')]\<rparr>),
         tasks, logged @ [LogError (''Error handling request: '' @ str e)]))"
proof (intro conjI allI impI)
  obtain res tasks logged
    where t: "handle_jsonrpc_try enc repr V self request_text = (res, tasks, logged)"
    by (cases "handle_jsonrpc_try enc repr V self request_text") auto
  show "\<exists>returned tasks logged.
      handle_jsonrpc enc repr V self request_text = (Inr returned, tasks, logged)"
  proof (cases res)
    case (Inl e)
    with t show ?thesis by (simp add: handle_jsonrpc_caught)
  next
    case (Inr returned)
    with t show ?thesis by (simp add: handle_jsonrpc_returned)
  qed
next
  fix e tasks logged
  assume "handle_jsonrpc_try enc repr V self request_text = (Inl e, tasks, logged)"
  then show "handle_jsonrpc enc repr V self request_text =
        (Inr (Some \<lparr>status = 200,
                    body_text = Some (enc (error_dict \<lparr>err_code = - 32603,
                       err_message = ''Internal error'', err_data = PStr (str e),
                       err_id = IdNull\<rparr>)),
                    content_type = Some ''application/json'',
                    headers = [(''Access-Control-Allow-Origin'', ''*'')]\<rparr>),
         tasks, logged @ [LogError (''Error handling request: '' @ str e)])"
    by (rule handle_jsonrpc_caught)
qed

theorem no_exception_escapes_witness:
  "handle_jsonrpc_try sample_enc sample_repr sample_validator sample_server (Inr ''crash'') =
     (Inl (Exception ''parser crashed''), [], [LogDebug ''Received raw message: crash'']) \<and>
   handle_jsonrpc sample_enc sample_repr sample_validator sample_server (Inr ''crash'') =
     (Inr (Some \<lparr>status = 200,
                 body_text = Some (sample_enc (error_dict \<lparr>err_code = - 32603,
                    err_message = ''Internal error'', err_data = PStr ''parser crashed'',
                    err_id = IdNull\<rparr>)),
                 content_type = Some ''application/json'',
                 headers = [(''Access-Control-Allow-Origin'', ''*'')]\<rparr>),
      [], [LogDebug ''Received raw message: crash'',
           LogError ''Error handling request: parser crashed''])"
proof -
  have a: "handle_jsonrpc_try sample_enc sample_repr sample_validator sample_server (Inr ''crash'') =
      (Inl (Exception ''parser crashed''), [], [LogDebug ''Received raw message: crash''])"
    by (simp add: handle_jsonrpc_try_def sample_validator_simps sample_parse_def)
  show ?thesis
    using no_exception_escapes [where enc = sample_enc and repr = sample_repr
        and V = sample_validator and self = sample_server and request_text = "Inr ''crash''"] a
    by simp
qed

text \<open>
  Claim C8. The classification of a request depends on the registry only through its set
  of keys, and on nothing else in the server: take two servers with the same registered
  names and the same validator, whose handlers, host and port may differ (the server
  before and after handlers changed their behaviour). For every request, either both
  return the same error object and log (unknown method, invalid parameters, failed
  business rule, or a validator that raised), or validation passes with the same domain
  message on both and each invokes its own handler on it, the answer being that
  handler's outcome. A payload that the parser does not classify as a request is handled
  identically by both.
\<close>

theorem classification_deterministic:
  assumes "dom (methods s1) = dom (methods s2)"
  shows "((\<exists>failure logged.
        handle_request repr V s1 r = (Failure failure, logged) \<and>
        handle_request repr V s2 r = (Failure failure, logged) \<and>
        err_id failure = req_id r \<and>
        (err_code failure = - 32601 \<or> err_code failure = - 32602 \<or>
         err_code failure = - 32603)) \<or>
     (\<exists>h1 h2 m.
        methods s1 (req_method r) = Some h1 \<and> methods s2 (req_method r) = Some h2 \<and>
        validate_a2a_message V (req_method r) (req_params r) = Inr (Some m) \<and>
        validate_business_rules V m = Inr True \<and>
        handle_request repr V s1 r =
          (case h1 m of
             Inr v \<Rightarrow> (Success \<lparr>res_result = v, res_id = req_id r\<rparr>, [])
           | Inl e \<Rightarrow>
               (Failure \<lparr>err_code = - 32603, err_message = ''Internal error'',
                         err_data = PStr (str e), err_id = req_id r\<rparr>,
                [LogError (''Error executing method '' @ req_method r @ '': '' @ str e)])) \<and>
        handle_request repr V s2 r =
          (case h2 m of
             Inr v \<Rightarrow> (Success \<lparr>res_result = v, res_id = req_id r\<rparr>, [])
           | Inl e \<Rightarrow>
               (Failure \<lparr>err_code = - 32603, err_message = ''Internal error'',
                         err_data = PStr (str e), err_id = req_id r\<rparr>,
                [LogError (''Error executing method '' @ req_method r @ '': '' @ str e)])))) \<and>
    ((\<forall>raw r'. request_text = Inr raw \<longrightarrow>
        validate_jsonrpc_message V raw \<noteq> Inr (ParsedRequest r')) \<longrightarrow>
     handle_jsonrpc enc repr V s1 request_text = handle_jsonrpc enc repr V s2 request_text)"
proof (intro conjI impI)
  show "(\<exists>failure logged.
        handle_request repr V s1 r = (Failure failure, logged) \<and>
        handle_request repr V s2 r = (Failure failure, logged) \<and>
        err_id failure = req_id r \<and>
        (err_code failure = - 32601 \<or> err_code failure = - 32602 \<or>
         err_code failure = - 32603)) \<or>
     (\<exists>h1 h2 m.
        methods s1 (req_method r) = Some h1 \<and> methods s2 (req_method r) = Some h2 \<and>
        validate_a2a_message V (req_method r) (req_params r) = Inr (Some m) \<and>
        validate_business_rules V m = Inr True \<and>
        handle_request repr V s1 r =
          (case h1 m of
             Inr v \<Rightarrow> (Success \<lparr>res_result = v, res_id = req_id r\<rparr>, [])
           | Inl e \<Rightarrow>
               (Failure \<lparr>err_code = - 32603, err_message = ''Internal error'',
                         err_data = PStr (str e), err_id = req_id r\<rparr>,
                [LogError (''Error executing method '' @ req_method r @ '': '' @ str e)])) \<and>
        handle_request repr V s2 r =
          (case h2 m of
             Inr v \<Rightarrow> (Success \<lparr>res_result = v, res_id = req_id r\<rparr>, [])
           | Inl e \<Rightarrow>
               (Failure \<lparr>err_code = - 32603, err_message = ''Internal error'',
                         err_data = PStr (str e), err_id = req_id r\<rparr>,
                [LogError (''Error executing method '' @ req_method r @ '': '' @ str e)])))"
  proof (cases "methods s1 (req_method r)")
    case None
    then have "req_method r \<notin> dom (methods s1)"
      by (simp add: domIff)
    then have "req_method r \<notin> dom (methods s2)"
      using assms by simp
    then have "methods s2 (req_method r) = None"
      by (simp add: domIff)
    with None show ?thesis
      by (simp add: handle_request_unknown)
  next
    case (Some h1)
    then have "req_method r \<in> dom (methods s1)"
      by (simp add: domIff)
    then have "req_method r \<in> dom (methods s2)"
      using assms by simp
    then obtain h2 where h2: "methods s2 (req_method r) = Some h2"
      by (auto simp add: domIff)
    show ?thesis
    proof (cases "validate_a2a_message V (req_method r) (req_params r)")
      case (Inl e)
      with Some h2 show ?thesis
        by (simp add: handle_request_registered handle_request_try_def)
    next
      case (Inr found)
      show ?thesis
      proof (cases found)
        case None
        with Inr Some h2 show ?thesis
          by (simp add: handle_request_registered handle_request_try_def
              create_error_response_def)
      next
        case (Some m)
        note m = Inr [unfolded Some]
        show ?thesis
        proof (cases "validate_business_rules V m")
          case (Inl e)
          with m \<open>methods s1 (req_method r) = Some h1\<close> h2 show ?thesis
            by (simp add: handle_request_registered handle_request_try_def)
        next
          case (Inr ok)
          show ?thesis
          proof (cases ok)
            case False
            with Inr m \<open>methods s1 (req_method r) = Some h1\<close> h2 show ?thesis
              by (simp add: handle_request_registered handle_request_try_def
                  create_error_response_def)
          next
            case True
            with Inr have rules: "validate_business_rules V m = Inr True" by simp
            have "handle_request repr V s1 r =
                (case h1 m of
                   Inr v \<Rightarrow> (Success \<lparr>res_result = v, res_id = req_id r\<rparr>, [])
                 | Inl e \<Rightarrow>
                     (Failure \<lparr>err_code = - 32603, err_message = ''Internal error'',
                               err_data = PStr (str e), err_id = req_id r\<rparr>,
                      [LogError (''Error executing method '' @ req_method r @ '': '' @ str e)]))"
              using \<open>methods s1 (req_method r) = Some h1\<close> m rules
              by (simp add: handle_request_registered handle_request_try_invoke
                  split: sum.splits)
            moreover have "handle_request repr V s2 r =
                (case h2 m of
                   Inr v \<Rightarrow> (Success \<lparr>res_result = v, res_id = req_id r\<rparr>, [])
                 | Inl e \<Rightarrow>
                     (Failure \<lparr>err_code = - 32603, err_message = ''Internal error'',
                               err_data = PStr (str e), err_id = req_id r\<rparr>,
                      [LogError (''Error executing method '' @ req_method r @ '': '' @ str e)]))"
              using h2 m rules
              by (simp add: handle_request_registered handle_request_try_invoke
                  split: sum.splits)
            ultimately show ?thesis
              using \<open>methods s1 (req_method r) = Some h1\<close> h2 m rules by blast
          qed
        qed
      qed
    qed
  qed
next
  assume "\<forall>raw r'. request_text = Inr raw \<longrightarrow>
      validate_jsonrpc_message V raw \<noteq> Inr (ParsedRequest r')"
  then have "handle_jsonrpc_try enc repr V s1 request_text = handle_jsonrpc_try enc repr V s2 request_text"
    by (rule handle_jsonrpc_try_registry_free)
  then show "handle_jsonrpc enc repr V s1 request_text = handle_jsonrpc enc repr V s2 request_text"
    by (simp add: handle_jsonrpc_def)
qed

theorem classification_deterministic_witness:
  "dom (methods sample_server) = dom (methods swapped_server) \<and>
   validate_a2a_message sample_validator (req_method list_params_request)
     (req_params list_params_request) = Inr None \<and>
   validate_jsonrpc_message sample_validator ''note'' = Inr (ParsedNotification fail_notification) \<and>
   handle_request sample_repr sample_validator sample_server list_params_request =
     handle_request sample_repr sample_validator swapped_server list_params_request \<and>
   handle_jsonrpc sample_enc sample_repr sample_validator sample_server (Inr ''note'') =
     handle_jsonrpc sample_enc sample_repr sample_validator swapped_server (Inr ''note'')"
proof -
  have a: "dom (methods sample_server) = dom (methods swapped_server)"
    by (rule sample_dom)
  have c: "validate_a2a_message sample_validator (req_method list_params_request)
      (req_params list_params_request) = Inr None"
    by (simp add: sample_validator_simps sample_validate_def list_params_request_def)
  have e: "\<forall>raw r'. (Inr ''note'' :: exn + string) = Inr raw \<longrightarrow>
      validate_jsonrpc_message sample_validator raw \<noteq> Inr (ParsedRequest r')"
    by (simp add: sample_validator_simps sample_parse_def)
  show ?thesis
    using classification_deterministic [OF a, where V = sample_validator
        and r = list_params_request and request_text = "Inr ''note''" and enc = sample_enc
        and repr = sample_repr] a c e
    by (auto simp add: sample_validator_simps sample_parse_def)
qed

text \<open>
  Claim C9. When the parser returns a value that is neither an error object nor a
  notification nor a request, none of the three \<^verbatim>\<open>isinstance\<close> branches is taken and
  \<^verbatim>\<open>_handle_jsonrpc\<close> falls off its end: it returns Python's \<^verbatim>\<open>None\<close>, not a response.
  That is the only way it returns \<^verbatim>\<open>None\<close>: in every other case the transport gets a
  response.
\<close>

theorem unrecognised_envelope_none:
  "(validate_jsonrpc_message V raw = Inr (ParsedOther x) \<longrightarrow>
      handle_jsonrpc enc repr V self (Inr raw) =
        (Inr None, [], [LogDebug (''Received raw message: '' @ raw)])) \<and>
   (fst (handle_jsonrpc enc repr V self request_text) = Inr None \<longrightarrow>
      (\<exists>raw' x'. request_text = Inr raw' \<and>
         validate_jsonrpc_message V raw' = Inr (ParsedOther x')))"
proof (intro conjI impI)
  assume "validate_jsonrpc_message V raw = Inr (ParsedOther x)"
  then show "handle_jsonrpc enc repr V self (Inr raw) =
        (Inr None, [], [LogDebug (''Received raw message: '' @ raw)])"
    by (simp add: handle_jsonrpc_def handle_jsonrpc_try_def)
next
  assume none: "fst (handle_jsonrpc enc repr V self request_text) = Inr None"
  obtain res tasks logged
    where t: "handle_jsonrpc_try enc repr V self request_text = (res, tasks, logged)"
    by (cases "handle_jsonrpc_try enc repr V self request_text") auto
  have "res = Inr None"
  proof (cases res)
    case (Inl e)
    with t none show ?thesis by (simp add: handle_jsonrpc_caught)
  next
    case (Inr returned)
    with t none show ?thesis by (simp add: handle_jsonrpc_returned)
  qed
  with t have "fst (handle_jsonrpc_try enc repr V self request_text) = Inr None" by simp
  then show "\<exists>raw' x'. request_text = Inr raw' \<and>
         validate_jsonrpc_message V raw' = Inr (ParsedOther x')"
    by (rule handle_jsonrpc_try_None)
qed

theorem unrecognised_envelope_none_witness:
  "validate_jsonrpc_message sample_validator ''odd'' = Inr (ParsedOther (PInt 7)) \<and>
   handle_jsonrpc sample_enc sample_repr sample_validator sample_server (Inr ''odd'') =
     (Inr None, [], [LogDebug ''Received raw message: odd'']) \<and>
   fst (handle_jsonrpc sample_enc sample_repr sample_validator sample_server (Inr ''odd'')) = Inr None \<and>
   (\<exists>raw' x'. (Inr ''odd'' :: exn + string) = Inr raw' \<and>
      validate_jsonrpc_message sample_validator raw' = Inr (ParsedOther x'))"
proof -
  have a: "validate_jsonrpc_message sample_validator ''odd'' = Inr (ParsedOther (PInt 7))"
    by (simp add: sample_validator_simps sample_parse_def)
  show ?thesis
    using unrecognised_envelope_none [where V = sample_validator and raw = "''odd''"
        and x = "PInt 7" and enc = sample_enc and repr = sample_repr and self = sample_server
        and request_text = "Inr ''odd''"] a
    by simp
qed

text \<open>
  Claim C10. A construction with neither host nor port given computes the fallbacks from
  the environment first, so it raises when \<^verbatim>\<open>A2A_PORT\<close> is not an integer literal;
  otherwise it yields an instance whose host and port are both \<^verbatim>\<open>None\<close>, the fallbacks
  having been overwritten. In general, the host and port of every constructed instance
  are the raw constructor arguments.
\<close>

theorem init_overwrites_fallback:
  "(\<forall>p. py_int (getenv environ ''A2A_PORT'' ''8080'') = Inr p \<longrightarrow>
      (init environ py_int None None :: exn + 'm A2AServer) =
        Inr \<lparr>host = None, port = None, methods = Map.empty\<rparr>) \<and>
   (\<forall>e. py_int (getenv environ ''A2A_PORT'' ''8080'') = Inl e \<longrightarrow>
      (init environ py_int None None :: exn + 'm A2AServer) = Inl e) \<and>
   (\<forall>self :: 'm A2AServer. init environ py_int host_arg port_arg = Inr self \<longrightarrow>
      host self = host_arg \<and> port self = port_arg)"
  by (auto simp add: init_def Let_def split: sum.splits if_splits)

theorem init_overwrites_fallback_witness:
  "sample_int (getenv Map.empty ''A2A_PORT'' ''8080'') = Inr 8080 \<and>
   (init Map.empty sample_int None None :: exn + pyval A2AServer) =
     Inr \<lparr>host = None, port = None, methods = Map.empty\<rparr> \<and>
   host \<lparr>host = None, port = None, methods = (Map.empty :: string \<rightharpoonup> pyval handler)\<rparr> = None \<and>
   port \<lparr>host = None, port = None, methods = (Map.empty :: string \<rightharpoonup> pyval handler)\<rparr> = None"
proof -
  have a: "sample_int (getenv Map.empty ''A2A_PORT'' ''8080'') = Inr 8080"
    by (simp add: sample_int_def getenv_def)
  show ?thesis
    using init_overwrites_fallback [where ?'m = pyval, of sample_int Map.empty None None] a
    by simp
qed

end
